theory Spec2Isabelle
  imports Main "HOL-Library.AList"
begin

section \<open>Data model of \<open>mezzanine/core/forms.py\<close>\<close>

text \<open>
  The module is a set of adapters over the web framework's forms, widgets and
  authentication. Framework objects are modelled by the attributes the module reads and
  writes; framework primitives (the email validator, the authenticator, the table of
  specialised widgets) are parameters of the functions that call them.
\<close>

subsection \<open>Python values and exceptions\<close>

datatype pyval = PyStr string | PyInt int | PyNone

datatype error =
    ValidationError string
  | KeyError pyval
  | AttributeError string
  | IntegrityError
  | FieldError "string list"

subsection \<open>Strings\<close>

text \<open>\<open>str.lower()\<close> on a byte string: the letters A..Z are mapped to a..z.\<close>

definition lower_char :: "char \<Rightarrow> char" where
  "lower_char c =
     (let n = (of_char c :: nat) in if 65 \<le> n \<and> n \<le> 90 then char_of (n + 32) else c)"

definition lower :: "string \<Rightarrow> string" where
  "lower s = map lower_char s"

text \<open>\<open>s.split(",")\<close>: always at least one piece; the empty string gives one empty piece.\<close>

fun split_comma :: "string \<Rightarrow> string list" where
  "split_comma [] = [[]]"
| "split_comma (c # cs) =
     (if c = CHR '','' then [] # split_comma cs
      else (case split_comma cs of [] \<Rightarrow> [[c]] | w # ws \<Rightarrow> (c # w) # ws))"

subsection \<open>Widgets and form fields\<close>

text \<open>
  A widget is its class and its \<open>attrs\<close> dictionary. Every form field owns its widget
  (the framework copies fields and widgets per form instance), so widgets are values.
\<close>

record widget =
  widget_class :: string
  attrs :: "string \<rightharpoonup> string"

text \<open>
  The classes of form fields. The override table of \<open>get_edit_form\<close> is keyed by the
  class object itself, so a class that merely shares a name with one of the three keyed
  classes is a different class: \<open>OtherField\<close> carries such a class by its name.
\<close>

datatype field_class = CharField | DateField | DateTimeField | EmailField | OtherField string

fun class_name :: "field_class \<Rightarrow> string" where
  "class_name CharField = ''CharField''"
| "class_name DateField = ''DateField''"
| "class_name DateTimeField = ''DateTimeField''"
| "class_name EmailField = ''EmailField''"
| "class_name (OtherField n) = n"

record form_field =
  field_class :: field_class
  label :: "string option"
  required :: bool
  widget :: widget

text \<open>A widget built by its class with no arguments, where the class sets no attribute.\<close>

definition new_widget :: "string \<Rightarrow> widget" where
  "new_widget c = \<lparr>widget_class = c, attrs = Map.empty\<rparr>"

subsection \<open>Forms\<close>

text \<open>
  The framework's form object: bound data and files, initial values, the ordered
  dictionary \<open>self.fields\<close> (an association list with distinct keys, in key order) and the
  cleaned data that validation fills in.
\<close>

record form =
  data :: "(string \<rightharpoonup> string) option"
  files :: "(string \<rightharpoonup> string) option"
  initial :: "string \<rightharpoonup> pyval"
  form_fields :: "(string \<times> form_field) list"
  cleaned_data :: "string \<rightharpoonup> string"

section \<open>\<open>TinyMceWidget\<close>\<close>

text \<open>
  \<open>Textarea.__init__(attrs)\<close> of the framework starts from the defaults
  \<open>cols=40, rows=10\<close> and updates them with the attributes given; the constructor
  of \<open>TinyMceWidget\<close> then assigns the \<open>class\<close> attribute.
\<close>

definition Textarea_init :: "(string \<rightharpoonup> string) option \<Rightarrow> widget" where
  "Textarea_init a =
     (let default_attrs = [''cols'' \<mapsto> ''40'', ''rows'' \<mapsto> ''10'']
      in \<lparr>widget_class = ''Textarea'',
          attrs = (case a of None \<Rightarrow> default_attrs | Some given \<Rightarrow> default_attrs ++ given)\<rparr>)"

definition TinyMceWidget_init :: "(string \<rightharpoonup> string) option \<Rightarrow> widget" where
  "TinyMceWidget_init a =
     (let self = (Textarea_init a)\<lparr>widget_class := ''TinyMceWidget''\<rparr>
      in self\<lparr>attrs := (attrs self)(''class'' \<mapsto> ''mceEditor'')\<rparr>)"

section \<open>\<open>UserForm\<close>, \<open>SignupForm\<close>, \<open>LoginForm\<close>\<close>

subsection \<open>Users, registry, request\<close>

text \<open>
  A row of the framework's user table, with the columns the module passes or reads.
  The table is keyed by the unique \<open>username\<close>.
\<close>

record user =
  username :: string
  email :: string
  password :: string
  is_active :: bool

type_synonym registry = "string \<rightharpoonup> user"

text \<open>Calls of the framework's two authentication primitives, as they are made.\<close>

datatype call = Authenticate string string | Login "user option"

text \<open>
  The state outside the form: the user registry, the user of the request's session and
  the log of calls to \<open>authenticate\<close> and \<open>login\<close>.
\<close>

record world =
  users :: registry
  session :: "user option"
  calls :: "call list"

text \<open>
  \<open>request.COOKIES\<close> is a dictionary; the association list gives its entries in the
  order in which \<open>values()\<close> enumerates them.
\<close>

record request =
  COOKIES :: "(string \<times> string) list"

record user_form = form +
  priv_user :: "user option option"

text \<open>
  \<open>priv_user\<close> is the attribute \<open>_user\<close>: \<open>None\<close> while it has not been assigned,
  \<open>Some r\<close> once \<open>authenticate\<close> has stored its result \<open>r\<close> (a user or \<open>None\<close>).
\<close>

subsection \<open>\<open>UserForm.__init__\<close>\<close>

text \<open>
  The loop over the cookie values. \<open>validate_email v\<close> is the framework's validator:
  true when it returns, false when it raises \<open>ValidationError\<close>. The first value
  that validates is stored and ends the loop.
\<close>

fun scan_cookies :: "(string \<Rightarrow> bool) \<Rightarrow> string list \<Rightarrow> (string \<rightharpoonup> pyval) \<Rightarrow> (string \<rightharpoonup> pyval)" where
  "scan_cookies validate_email [] init = init"
| "scan_cookies validate_email (v # vs) init =
     (if validate_email v then init(''email'' \<mapsto> PyStr v)
      else scan_cookies validate_email vs init)"

text \<open>The two declared fields of the form.\<close>

definition UserForm_fields :: "(string \<times> form_field) list" where
  "UserForm_fields =
     [(''email'', \<lparr>field_class = EmailField, label = Some ''Email Address'', required = True,
                   widget = new_widget ''TextInput''\<rparr>),
      (''password'', \<lparr>field_class = CharField, label = Some ''Password'', required = True,
                      widget = new_widget ''PasswordInput''\<rparr>)]"

definition UserForm_init ::
  "(string \<Rightarrow> bool) \<Rightarrow> request \<Rightarrow> (string \<rightharpoonup> string) option \<Rightarrow> user_form" where
  "UserForm_init validate_email req d =
     (let init = scan_cookies validate_email (map snd (COOKIES req)) Map.empty
      in \<lparr>data = d, files = None, initial = init, form_fields = UserForm_fields,
          cleaned_data = Map.empty, priv_user = None\<rparr>)"

subsection \<open>\<open>UserForm.authenticate\<close> and \<open>UserForm.login\<close>\<close>

text \<open>
  \<open>authenticator\<close> is the framework's \<open>authenticate\<close>: from the registry and the
  credentials it gives a user or \<open>None\<close>, and raises nothing. The method reads the
  credentials with \<open>cleaned_data.get(key, "")\<close> and stores the result in \<open>_user\<close>.
\<close>

type_synonym authenticator = "registry \<Rightarrow> string \<Rightarrow> string \<Rightarrow> user option"

definition get_default :: "(string \<rightharpoonup> string) \<Rightarrow> string \<Rightarrow> string \<Rightarrow> string" where
  "get_default m k dflt = (case m k of None \<Rightarrow> dflt | Some v \<Rightarrow> v)"

definition UserForm_authenticate ::
  "authenticator \<Rightarrow> world \<Rightarrow> user_form \<Rightarrow> world \<times> user_form" where
  "UserForm_authenticate authenticator w self =
     (let e = get_default (cleaned_data self) ''email'' [];
          p = get_default (cleaned_data self) ''password'' [];
          r = authenticator (users w) e p
      in (w\<lparr>calls := calls w @ [Authenticate e p]\<rparr>, self\<lparr>priv_user := Some r\<rparr>))"

text \<open>
  \<open>login(request, self._user)\<close>: reading \<open>_user\<close> before it was assigned raises
  \<open>AttributeError\<close>. The framework's primitive makes the given user the session's
  user (given \<open>None\<close> it keeps the user the request already has).
\<close>

definition UserForm_login :: "world \<Rightarrow> user_form \<Rightarrow> error + world" where
  "UserForm_login w self =
     (case priv_user self of
        None \<Rightarrow> Inl (AttributeError ''_user'')
      | Some u \<Rightarrow>
          Inr (w\<lparr>session := (case u of None \<Rightarrow> session w | Some x \<Rightarrow> Some x),
                 calls := calls w @ [Login u]\<rparr>))"

subsection \<open>\<open>SignupForm\<close>\<close>

text \<open>
  \<open>clean_email\<close>: \<open>User.objects.get(username=email)\<close> looks the address up as a
  username. \<open>DoesNotExist\<close> returns the address; a hit raises the validation error.
\<close>

definition SignupForm_clean_email :: "registry \<Rightarrow> user_form \<Rightarrow> error + string" where
  "SignupForm_clean_email reg self =
     (case cleaned_data self ''email'' of
        None \<Rightarrow> Inl (KeyError (PyStr ''email''))
      | Some e \<Rightarrow>
          (case reg e of
             None \<Rightarrow> Inr e
           | Some u \<Rightarrow> Inl (ValidationError ''This email is already registered'')))"

text \<open>
  The framework's \<open>User.objects.create_user(username, email, password)\<close> inserts an
  active user under the given username; the table refuses a second row with the same
  username. The username is stored as given. The address is normalised first: an
  address with an \<open>@\<close> is stripped of surrounding whitespace and the part after its
  last \<open>@\<close> is lower-cased; an address without \<open>@\<close> is stored as given.
  \<open>user.save()\<close> writes the row back.
\<close>

definition is_space :: "char \<Rightarrow> bool" where
  "is_space c = (let n = (of_char c :: nat) in n = 32 \<or> (9 \<le> n \<and> n \<le> 13))"

definition strip :: "string \<Rightarrow> string" where
  "strip s = rev (dropWhile is_space (rev (dropWhile is_space s)))"

text \<open>\<open>s.rsplit("@", 1)\<close>, when it gives two pieces.\<close>

fun rsplit_at :: "string \<Rightarrow> (string \<times> string) option" where
  "rsplit_at [] = None"
| "rsplit_at (c # cs) =
     (case rsplit_at cs of
        Some (a, b) \<Rightarrow> Some (c # a, b)
      | None \<Rightarrow> if c = CHR ''@'' then Some ([], cs) else None)"

definition normalize_email :: "string \<Rightarrow> string" where
  "normalize_email mail =
     (case rsplit_at (strip mail) of
        None \<Rightarrow> mail
      | Some (email_name, domain_part) \<Rightarrow> email_name @ ''@'' @ lower domain_part)"

definition create_user :: "world \<Rightarrow> string \<Rightarrow> string \<Rightarrow> string \<Rightarrow> error + (user \<times> world)" where
  "create_user w uname mail pw =
     (case users w uname of
        Some u \<Rightarrow> Inl IntegrityError
      | None \<Rightarrow>
          (let u = \<lparr>username = uname, email = normalize_email mail, password = pw,
                    is_active = True\<rparr>
           in Inr (u, w\<lparr>users := (users w)(uname \<mapsto> u)\<rparr>)))"

definition save_user :: "world \<Rightarrow> user \<Rightarrow> world" where
  "save_user w u = w\<lparr>users := (users w)(username u \<mapsto> u)\<rparr>"

text \<open>
  The configuration the module reads. \<open>settings.use_editable()\<close> only refreshes it;
  the record holds the values as they are read after the refresh.
\<close>

record settings =
  FORMS_USE_HTML5 :: bool
  ACCOUNTS_VERIFICATION_REQUIRED :: bool

definition SignupForm_save ::
  "settings \<Rightarrow> authenticator \<Rightarrow> world \<Rightarrow> user_form \<Rightarrow> error + (user \<times> world \<times> user_form)" where
  "SignupForm_save st authenticator w self =
     (case cleaned_data self ''email'' of
        None \<Rightarrow> Inl (KeyError (PyStr ''email''))
      | Some e \<Rightarrow>
     (case cleaned_data self ''password'' of
        None \<Rightarrow> Inl (KeyError (PyStr ''password''))
      | Some p \<Rightarrow>
     (case create_user w e e p of
        Inl err \<Rightarrow> Inl err
      | Inr (u, w1) \<Rightarrow>
          (if ACCOUNTS_VERIFICATION_REQUIRED st then
             (let u' = u\<lparr>is_active := False\<rparr> in Inr (u', save_user w1 u', self))
           else
             (case UserForm_authenticate authenticator w1 self of
                (w2, self') \<Rightarrow> Inr (u, w2, self'))))))"

subsection \<open>\<open>LoginForm\<close>\<close>

text \<open>
  \<open>clean\<close> returns the world and the form as the method leaves them (the stored
  \<open>_user\<close> stays when the method raises) and either the error raised or the cleaned
  data returned.
\<close>

definition LoginForm_clean ::
  "authenticator \<Rightarrow> world \<Rightarrow> user_form \<Rightarrow> world \<times> user_form \<times> (error + (string \<rightharpoonup> string))" where
  "LoginForm_clean authenticator w self =
     (if ''email'' \<in> dom (cleaned_data self) \<and> ''password'' \<in> dom (cleaned_data self) then
        (case UserForm_authenticate authenticator w self of
           (w', self') \<Rightarrow>
             (case priv_user self' of
                None \<Rightarrow> (w', self', Inl (AttributeError ''_user''))
              | Some None \<Rightarrow> (w', self', Inl (ValidationError ''Invalid email/password''))
              | Some (Some u) \<Rightarrow>
                  (if \<not> is_active u
                   then (w', self', Inl (ValidationError ''Your account is inactive''))
                   else (w', self', Inr (cleaned_data self')))))
      else (w, self, Inr (cleaned_data self)))"

section \<open>\<open>DynamicInlineAdminForm\<close>\<close>

subsection \<open>Models and model-bound forms\<close>

text \<open>
  What the module reads of a model class and its \<open>_meta\<close>: the application label, the
  class name, whether the class is a subclass of \<open>Orderable\<close>, and the model's editable
  fields, each with the form field the framework derives for it.
\<close>

record model_meta =
  app_label :: string
  object_name :: string
  orderable :: bool
  model_formfields :: "(string \<times> form_field) list"

text \<open>A model instance: its class, its \<open>id\<close> and the values of its fields.\<close>

record obj =
  obj_meta :: model_meta
  obj_id :: pyval
  obj_values :: "string \<rightharpoonup> pyval"

record model_form = form +
  meta_model :: model_meta
  meta_fields :: "string list option"
  form_instance :: "obj option"

text \<open>
  \<open>self.fields[key] = value\<close> on the framework's ordered dictionary is
  \<open>AList.update\<close>: an existing key keeps its place and takes the new value, a new key is
  appended. Building the dictionary from a list of pairs assigns them in turn.
\<close>

definition sorted_dict :: "('k \<times> 'v) list \<Rightarrow> ('k \<times> 'v) list" where
  "sorted_dict kvs = fold (\<lambda>(k, v) d. AList.update k v d) kvs []"

subsection \<open>The constructor\<close>

text \<open>
  \<open>self\<close> is the form as \<open>ModelForm.__init__\<close> leaves it; the constructor then
  assigns the \<open>_order\<close> field when the model is orderable.
\<close>

definition order_field :: form_field where
  "order_field = \<lparr>field_class = CharField, label = Some ''Order'', required = False,
                   widget = new_widget ''OrderWidget''\<rparr>"

definition DynamicInlineAdminForm_init :: "model_form \<Rightarrow> model_form" where
  "DynamicInlineAdminForm_init self =
     (if orderable (meta_model self)
      then self\<lparr>form_fields := AList.update ''_order'' order_field (form_fields self)\<rparr>
      else self)"

section \<open>\<open>get_edit_form\<close>\<close>

subsection \<open>The forms application's field types\<close>

text \<open>
  \<open>mezzanine.forms.fields\<close> is imported, not defined, by the module: its three type
  constants and its table \<open>WIDGETS\<close> are parameters. \<open>WIDGETS\<close> maps a type
  constant to a widget class; the model holds, for each key, the widget that calling the
  class with no arguments builds. A key the table lacks raises \<open>KeyError\<close>.
\<close>

record fields_module =
  DATE :: int
  DATE_TIME :: int
  EMAIL :: int
  WIDGETS :: "int \<rightharpoonup> widget"

definition widget_overrides :: "fields_module \<Rightarrow> field_class \<rightharpoonup> int" where
  "widget_overrides fm c =
     (case c of
        DateField \<Rightarrow> Some (DATE fm)
      | DateTimeField \<Rightarrow> Some (DATE_TIME fm)
      | EmailField \<Rightarrow> Some (EMAIL fm)
      | _ \<Rightarrow> None)"

subsection \<open>The framework's model form, as \<open>EditForm\<close> uses it\<close>

text \<open>
  The four fields the class declares, in declaration order.
\<close>

definition hidden_field :: form_field where
  "hidden_field = \<lparr>field_class = CharField, label = None, required = True,
                    widget = new_widget ''HiddenInput''\<rparr>"

definition EditForm_declared :: "(string \<times> form_field) list" where
  "EditForm_declared =
     [(''app'', hidden_field), (''model'', hidden_field), (''id'', hidden_field),
      (''fields'', hidden_field)]"

text \<open>
  Creating a model form class with \<open>Meta.fields = names\<close>: the framework looks every
  name up among the model's fields (a name it does not find gets no field), raises
  \<open>FieldError\<close> for the names without a field that the class does not declare itself,
  and then assigns the declared fields over the result.
\<close>

definition fields_for_model :: "model_meta \<Rightarrow> string list \<Rightarrow> (string \<times> form_field option) list" where
  "fields_for_model m names = sorted_dict (map (\<lambda>n. (n, map_of (model_formfields m) n)) names)"

definition ModelForm_fields ::
  "model_meta \<Rightarrow> string list \<Rightarrow> (string \<times> form_field) list \<Rightarrow> error + (string \<times> form_field) list" where
  "ModelForm_fields m names declared =
     (let fd = fields_for_model m names;
          none_model_fields = map fst (filter (\<lambda>(k, v). v = None) fd);
          missing_fields = filter (\<lambda>k. k \<notin> set (map fst declared)) none_model_fields
      in if missing_fields \<noteq> [] then Inl (FieldError missing_fields)
         else Inr (List.map_filter (\<lambda>(k, v). map_option (Pair k) v)
                     (fold (\<lambda>(k, v) d. AList.update k (Some v) d) declared fd)))"

text \<open>
  \<open>ModelForm.__init__(instance, initial, data, files)\<close>: the initial data are the
  instance's values for the selected fields, overridden by the \<open>initial\<close> given.
\<close>

definition model_to_dict :: "obj \<Rightarrow> string list \<Rightarrow> (string \<rightharpoonup> pyval)" where
  "model_to_dict ob names =
     (\<lambda>k. if k \<in> set names \<and> k \<in> set (map fst (model_formfields (obj_meta ob)))
          then obj_values ob k else None)"

definition ModelForm_init ::
  "model_meta \<Rightarrow> string list \<Rightarrow> (string \<times> form_field) list \<Rightarrow> obj \<Rightarrow> (string \<rightharpoonup> pyval) \<Rightarrow>
   (string \<rightharpoonup> string) option \<Rightarrow> (string \<rightharpoonup> string) option \<Rightarrow> error + model_form" where
  "ModelForm_init m names declared ob init d f =
     (case ModelForm_fields m names declared of
        Inl e \<Rightarrow> Inl e
      | Inr fs \<Rightarrow>
          Inr \<lparr>data = d, files = f, initial = model_to_dict ob names ++ init, form_fields = fs,
               cleaned_data = Map.empty, meta_model = m, meta_fields = Some names,
               form_instance = Some ob\<rparr>)"

subsection \<open>\<open>EditForm.__init__\<close>\<close>

record edit_form = model_form +
  uuid :: string

text \<open>
  The body of the loop for the field named \<open>f\<close>, in two parts. First the widget: a
  field whose class is a key of \<open>widget_overrides\<close> gets the widget \<open>WIDGETS\<close>
  builds for its type (the lookup in \<open>WIDGETS\<close> is outside the \<open>try\<close>, so its
  \<open>KeyError\<close> is not caught); any other field keeps its widget.
\<close>

definition override_widget :: "fields_module \<Rightarrow> form_field \<Rightarrow> error + form_field" where
  "override_widget fm fld =
     (case widget_overrides fm (field_class fld) of
        None \<Rightarrow> Inr fld
      | Some field_type \<Rightarrow>
          (case WIDGETS fm field_type of
             None \<Rightarrow> Inl (KeyError (PyInt field_type))
           | Some w \<Rightarrow> Inr (fld\<lparr>widget := w\<rparr>)))"

text \<open>Then the three attributes of the widget the field now has.\<close>

definition set_attr :: "string \<Rightarrow> string \<Rightarrow> form_field \<Rightarrow> form_field" where
  "set_attr k v fld = fld\<lparr>widget := (widget fld)\<lparr>attrs := (attrs (widget fld))(k \<mapsto> v)\<rparr>\<rparr>"

definition decorate :: "settings \<Rightarrow> string \<Rightarrow> string \<Rightarrow> form_field \<Rightarrow> form_field" where
  "decorate st u f fld =
     (let css_class = get_default (attrs (widget fld)) ''class'' [];
          css_class = css_class @ '' '' @ lower (class_name (field_class fld));
          fld = set_attr ''class'' css_class fld;
          fld = set_attr ''id'' (f @ ''-'' @ u) fld
      in if FORMS_USE_HTML5 st \<and> required fld then set_attr ''required'' [] fld else fld)"

definition EditForm_field ::
  "settings \<Rightarrow> fields_module \<Rightarrow> string \<Rightarrow> string \<Rightarrow> form_field \<Rightarrow> error + form_field" where
  "EditForm_field st fm u f fld =
     (case override_widget fm fld of
        Inl e \<Rightarrow> Inl e
      | Inr fld' \<Rightarrow> Inr (decorate st u f fld'))"

text \<open>
  The loop over \<open>self.fields.keys()\<close>, a list taken before the loop starts. Each
  field is changed in place, so the dictionary keeps its keys and their order.
\<close>

fun EditForm_loop ::
  "settings \<Rightarrow> fields_module \<Rightarrow> string \<Rightarrow> string list \<Rightarrow> (string \<times> form_field) list \<Rightarrow>
   error + (string \<times> form_field) list" where
  "EditForm_loop st fm u [] fs = Inr fs"
| "EditForm_loop st fm u (f # ks) fs =
     (case map_of fs f of
        None \<Rightarrow> Inl (KeyError (PyStr f))
      | Some fld \<Rightarrow>
          (case EditForm_field st fm u f fld of
             Inl e \<Rightarrow> Inl e
           | Inr fld' \<Rightarrow> EditForm_loop st fm u ks (AList.update f fld' fs)))"

text \<open>
  \<open>new_uuid\<close> is the string \<open>str(uuid4())\<close> gives for this instance.
\<close>

definition EditForm_init ::
  "settings \<Rightarrow> fields_module \<Rightarrow> string \<Rightarrow> model_form \<Rightarrow> error + edit_form" where
  "EditForm_init st fm new_uuid self =
     (case EditForm_loop st fm new_uuid (map fst (form_fields self)) (form_fields self) of
        Inl e \<Rightarrow> Inl e
      | Inr fs \<Rightarrow>
          Inr \<lparr>data = data self, files = files self, initial = initial self, form_fields = fs,
               cleaned_data = cleaned_data self, meta_model = meta_model self,
               meta_fields = meta_fields self, form_instance = form_instance self, uuid = new_uuid\<rparr>)"

subsection \<open>The factory\<close>

text \<open>
  \<open>EditForm_super\<close> is the form before the loop: the class is created for the
  object's model with \<open>Meta.fields = field_names.split(",")\<close> and the four declared
  fields, and the framework's constructor runs with the instance and the initial data.
\<close>

definition edit_initial :: "obj \<Rightarrow> string \<Rightarrow> (string \<rightharpoonup> pyval)" where
  "edit_initial ob field_names =
     [''app'' \<mapsto> PyStr (app_label (obj_meta ob)),
      ''id'' \<mapsto> obj_id ob,
      ''fields'' \<mapsto> PyStr field_names,
      ''model'' \<mapsto> PyStr (lower (object_name (obj_meta ob)))]"

definition EditForm_super ::
  "obj \<Rightarrow> string \<Rightarrow> (string \<rightharpoonup> string) option \<Rightarrow> (string \<rightharpoonup> string) option \<Rightarrow> error + model_form" where
  "EditForm_super ob field_names d f =
     ModelForm_init (obj_meta ob) (split_comma field_names) EditForm_declared ob
       (edit_initial ob field_names) d f"

definition get_edit_form ::
  "settings \<Rightarrow> fields_module \<Rightarrow> string \<Rightarrow> obj \<Rightarrow> string \<Rightarrow>
   (string \<rightharpoonup> string) option \<Rightarrow> (string \<rightharpoonup> string) option \<Rightarrow> error + edit_form" where
  "get_edit_form st fm new_uuid ob field_names d f =
     (case EditForm_super ob field_names d f of
        Inl e \<Rightarrow> Inl e
      | Inr self \<Rightarrow> EditForm_init st fm new_uuid self)"

section \<open>Example inputs\<close>

text \<open>Concrete inputs on which the properties below are evaluated.\<close>

definition ex_authenticator :: authenticator where
  "ex_authenticator reg e p =
     (case reg e of None \<Rightarrow> None | Some u \<Rightarrow> if password u = p then Some u else None)"

definition ex_user :: "string \<Rightarrow> bool \<Rightarrow> user" where
  "ex_user e a = \<lparr>username = e, email = e, password = ''pw'', is_active = a\<rparr>"

definition ex_world :: world where
  "ex_world = \<lparr>users = [''a@b.co'' \<mapsto> ex_user ''a@b.co'' True,
                           ''off@b.co'' \<mapsto> ex_user ''off@b.co'' False],
                session = None, calls = []\<rparr>"

definition ex_bob :: user where
  "ex_bob = \<lparr>username = ''bob'', email = ''a@b.co'', password = ''pw'', is_active = True\<rparr>"

definition ex_world_bob :: world where
  "ex_world_bob = \<lparr>users = [''bob'' \<mapsto> ex_bob], session = None, calls = []\<rparr>"

definition ex_form :: "string \<Rightarrow> string \<Rightarrow> user_form" where
  "ex_form e p = \<lparr>data = Some [''email'' \<mapsto> e, ''password'' \<mapsto> p], files = None,
                   initial = Map.empty, form_fields = UserForm_fields,
                   cleaned_data = [''email'' \<mapsto> e, ''password'' \<mapsto> p], priv_user = None\<rparr>"


definition ex_model :: model_meta where
  "ex_model = \<lparr>app_label = ''blog'', object_name = ''BlogPost'', orderable = False,
     model_formfields =
       [(''title'', \<lparr>field_class = CharField, label = Some ''Title'', required = True,
                      widget = \<lparr>widget_class = ''TextInput'', attrs = [''class'' \<mapsto> ''big'']\<rparr>\<rparr>),
        (''start_date'', \<lparr>field_class = DateField, label = Some ''Start date'', required = False,
                      widget = new_widget ''DateInput''\<rparr>)]\<rparr>"

definition ex_obj :: obj where
  "ex_obj = \<lparr>obj_meta = ex_model, obj_id = PyInt 7, obj_values = [''title'' \<mapsto> PyStr ''Hello'']\<rparr>"


definition ex_fields_module :: fields_module where
  "ex_fields_module = \<lparr>DATE = 10, DATE_TIME = 11, EMAIL = 3,
     WIDGETS = [10 \<mapsto> new_widget ''SelectDateWidget'',
                11 \<mapsto> new_widget ''SplitSelectDateTimeWidget'',
                3 \<mapsto> new_widget ''EmailInput'']\<rparr>"

definition ex_settings :: "bool \<Rightarrow> settings" where
  "ex_settings html5 = \<lparr>FORMS_USE_HTML5 = html5, ACCOUNTS_VERIFICATION_REQUIRED = False\<rparr>"

definition ex_model_form :: "bool \<Rightarrow> model_form" where
  "ex_model_form ord =
     \<lparr>data = None, files = None, initial = Map.empty,
      form_fields = model_formfields ex_model, cleaned_data = Map.empty,
      meta_model = ex_model\<lparr>orderable := ord\<rparr>, meta_fields = None, form_instance = None\<rparr>"

section \<open>Properties\<close>

subsection \<open>The rich-text widget\<close>

text \<open>
  C10. The constructor of the rich-text widget sets the \<open>class\<close> attribute to the
  editor's styling class whatever attributes it was given: a class passed at
  construction is replaced, not extended. Every other attribute is the one the text
  area's constructor produced.
\<close>

theorem TinyMceWidget_class_overwritten:
  "attrs (TinyMceWidget_init a) ''class'' = Some ''mceEditor'' \<and>
   attrs (TinyMceWidget_init (Some (given(''class'' \<mapsto> c)))) ''class'' = Some ''mceEditor'' \<and>
   (\<forall>k. k \<noteq> ''class'' \<longrightarrow> attrs (TinyMceWidget_init a) k = attrs (Textarea_init a) k)"
  by (simp add: TinyMceWidget_init_def Let_def)

theorem TinyMceWidget_class_overwritten_witness:
  "attrs (TinyMceWidget_init (Some [''class'' \<mapsto> ''wide'', ''rows'' \<mapsto> ''3''])) ''class''
     = Some ''mceEditor'' \<and>
   attrs (TinyMceWidget_init (Some [''class'' \<mapsto> ''wide'', ''rows'' \<mapsto> ''3''])) ''rows''
     = Some ''3'' \<and>
   attrs (TinyMceWidget_init (Some [''class'' \<mapsto> ''wide'', ''rows'' \<mapsto> ''3''])) ''cols''
     = Some ''40''"
  using TinyMceWidget_class_overwritten
    [of "Some [''class'' \<mapsto> ''wide'', ''rows'' \<mapsto> ''3'']" "[''rows'' \<mapsto> ''3'']" "''wide''"]
  by (simp add: Textarea_init_def)

subsection \<open>The credential forms\<close>

lemma scan_cookies_first:
  "\<forall>x\<in>set pre. \<not> P x \<Longrightarrow> P v \<Longrightarrow>
   scan_cookies P (pre @ v # post) init = init(''email'' \<mapsto> PyStr v)"
  by (induction pre) simp_all

lemma scan_cookies_none:
  "\<forall>x\<in>set vs. \<not> P x \<Longrightarrow> scan_cookies P vs init = init"
  by (induction vs) simp_all

text \<open>
  C1. Constructing a \<open>UserForm\<close> (the signup and the login form inherit the
  constructor) always yields a form. When the cookie values, in the order the
  collection enumerates them, are some values that do not validate, then a value \<open>v\<close>
  that does, then anything, the initial data is exactly \<open>email = v\<close>: the first valid
  value wins and the invalid ones before it are skipped. When no value validates,
  the initial data is empty.
\<close>

theorem UserForm_init_prefill:
  "(\<forall>pre v post.
      map snd (COOKIES req) = pre @ v # post \<and> (\<forall>x\<in>set pre. \<not> validate_email x) \<and>
      validate_email v \<longrightarrow>
      initial (UserForm_init validate_email req d) = [''email'' \<mapsto> PyStr v]) \<and>
   ((\<forall>x\<in>set (map snd (COOKIES req)). \<not> validate_email x) \<longrightarrow>
      initial (UserForm_init validate_email req d) = Map.empty)"
  by (auto simp: UserForm_init_def scan_cookies_first scan_cookies_none)

theorem UserForm_init_prefill_witness:
  "initial (UserForm_init (\<lambda>s. CHR ''@'' \<in> set s)
      \<lparr>COOKIES = [(''sid'', ''abc''), (''mail'', ''a@b.co''), (''alt'', ''c@d.co'')]\<rparr> None)
     = [''email'' \<mapsto> PyStr ''a@b.co''] \<and>
   initial (UserForm_init (\<lambda>s. CHR ''@'' \<in> set s) \<lparr>COOKIES = [(''sid'', ''abc'')]\<rparr> None)
     = Map.empty"
proof
  show "initial (UserForm_init (\<lambda>s. CHR ''@'' \<in> set s)
      \<lparr>COOKIES = [(''sid'', ''abc''), (''mail'', ''a@b.co''), (''alt'', ''c@d.co'')]\<rparr> None)
     = [''email'' \<mapsto> PyStr ''a@b.co'']"
    using UserForm_init_prefill
      [of "\<lparr>COOKIES = [(''sid'', ''abc''), (''mail'', ''a@b.co''), (''alt'', ''c@d.co'')]\<rparr>"
          "\<lambda>s. CHR ''@'' \<in> set s" None,
       THEN conjunct1, rule_format, of "[''abc'']" "''a@b.co''" "[''c@d.co'']"]
    by simp
  show "initial (UserForm_init (\<lambda>s. CHR ''@'' \<in> set s) \<lparr>COOKIES = [(''sid'', ''abc'')]\<rparr> None)
     = Map.empty"
    using UserForm_init_prefill
      [of "\<lparr>COOKIES = [(''sid'', ''abc'')]\<rparr>" "\<lambda>s. CHR ''@'' \<in> set s" None, THEN conjunct2]
    by simp
qed

text \<open>
  What \<open>clean_email\<close> does, for a submitted address \<open>e\<close> and whatever password the
  form holds: it fails with the duplicate-email error exactly when some user has \<open>e\<close>
  as its username, and otherwise returns \<open>e\<close>. The email column of the registry is
  never read.
\<close>

lemma SignupForm_clean_email_by_username:
  assumes "cleaned_data self ''email'' = Some e"
  shows "(reg e \<noteq> None \<longrightarrow>
            SignupForm_clean_email reg (self\<lparr>cleaned_data := (cleaned_data self)(''password'' := pw)\<rparr>)
              = Inl (ValidationError ''This email is already registered'')) \<and>
         (reg e = None \<longrightarrow>
            SignupForm_clean_email reg (self\<lparr>cleaned_data := (cleaned_data self)(''password'' := pw)\<rparr>)
              = Inr e)"
  using assms by (auto simp: SignupForm_clean_email_def)

text \<open>
  C2. The claim: an address already present in the user registry always fails signup
  validation with the duplicate-email error. The code, whose docstring is "Ensure the
  email address is not already registered", looks the address up among the usernames
  only. In the registry below the address \<open>a@b.co\<close> is registered, as the email of
  the user \<open>bob\<close>, and validation of \<open>a@b.co\<close> passes.
\<close>

theorem SignupForm_clean_email_misses_email_column:
  "users ex_world_bob ''bob'' = Some (ex_bob) \<and> email ex_bob = ''a@b.co'' \<and>
   cleaned_data (ex_form ''a@b.co'' ''pw'') ''email'' = Some ''a@b.co'' \<and>
   SignupForm_clean_email (users ex_world_bob) (ex_form ''a@b.co'' ''pw'') = Inr ''a@b.co''"
  by (simp add: SignupForm_clean_email_def ex_world_bob_def ex_bob_def ex_form_def)

text \<open>
  C3, as stated, fails: \<open>save\<close> does not always create a user. For a cleaned email
  that is already a username (a second signup before the first is saved, or \<open>save\<close>
  without validation) the framework's \<open>create_user\<close> raises \<open>IntegrityError\<close>,
  which \<open>save\<close> does not catch, and nothing is created.
\<close>

theorem SignupForm_save_creates_counterexample:
  "cleaned_data (ex_form ''a@b.co'' ''pw2'') ''email'' = Some ''a@b.co'' \<and>
   cleaned_data (ex_form ''a@b.co'' ''pw2'') ''password'' = Some ''pw2'' \<and>
   SignupForm_save (ex_settings False) ex_authenticator ex_world (ex_form ''a@b.co'' ''pw2'')
     = Inl IntegrityError"
  by (simp add: SignupForm_save_def create_user_def ex_world_def ex_form_def)

text \<open>
  C3, amended. \<open>SignupForm.save\<close> on a form with a cleaned email \<open>e\<close> and a cleaned
  password: when no user has the username \<open>e\<close>, it returns a new user with username
  \<open>e\<close> and adds exactly that user to the registry. The session is never touched. With
  verification required the user is inactive, no call to \<open>authenticate\<close> or
  \<open>login\<close> is made and the form is unchanged; without it the user is active, the
  only call made is \<open>authenticate\<close> with the cleaned credentials, and its result is
  stored in the form. When a user already has the username \<open>e\<close>, \<open>save\<close> raises
  \<open>IntegrityError\<close>.
\<close>

theorem SignupForm_save_creates:
  assumes "cleaned_data self ''email'' = Some e"
      and "cleaned_data self ''password'' = Some p"
  shows "(users w e = None \<longrightarrow>
          (\<exists>u w' self'.
             SignupForm_save st authenticator w self = Inr (u, w', self') \<and>
             username u = e \<and> users w' = (users w)(e \<mapsto> u) \<and> session w' = session w \<and>
             (ACCOUNTS_VERIFICATION_REQUIRED st \<longrightarrow>
                \<not> is_active u \<and> calls w' = calls w \<and> self' = self) \<and>
             (\<not> ACCOUNTS_VERIFICATION_REQUIRED st \<longrightarrow>
                is_active u \<and> calls w' = calls w @ [Authenticate e p] \<and>
                self' = self\<lparr>priv_user := Some (authenticator (users w') e p)\<rparr>))) \<and>
         (users w e \<noteq> None \<longrightarrow>
            SignupForm_save st authenticator w self = Inl IntegrityError)"
  using assms
  by (auto simp: SignupForm_save_def create_user_def save_user_def UserForm_authenticate_def
      get_default_def Let_def)

text \<open>
  C4. \<open>LoginForm.clean\<close>, when both \<open>email\<close> and \<open>password\<close> are in the cleaned
  data, calls \<open>authenticate\<close> once with them (and never \<open>login\<close>), stores the
  result, and then raises the invalid-credentials error exactly when the authenticator
  gave no user, raises the inactive-account error exactly when it gave a user that is
  not active, and returns the cleaned data exactly when it gave an active user.
\<close>

theorem LoginForm_clean_outcomes:
  assumes "cleaned_data self ''email'' = Some e"
      and "cleaned_data self ''password'' = Some p"
  shows "\<exists>w' self' res.
           LoginForm_clean authenticator w self = (w', self', res) \<and>
           calls w' = calls w @ [Authenticate e p] \<and>
           users w' = users w \<and> session w' = session w \<and>
           self' = self\<lparr>priv_user := Some (authenticator (users w) e p)\<rparr> \<and>
           (res = Inl (ValidationError ''Invalid email/password'')
              \<longleftrightarrow> authenticator (users w) e p = None) \<and>
           (res = Inl (ValidationError ''Your account is inactive'')
              \<longleftrightarrow> (\<exists>u. authenticator (users w) e p = Some u \<and> \<not> is_active u)) \<and>
           (res = Inr (cleaned_data self)
              \<longleftrightarrow> (\<exists>u. authenticator (users w) e p = Some u \<and> is_active u))"
  using assms
  by (auto simp: LoginForm_clean_def UserForm_authenticate_def get_default_def Let_def
      split: option.splits)

theorem SignupForm_save_creates_witness:
  "(\<exists>u w' self'.
      SignupForm_save \<lparr>FORMS_USE_HTML5 = False, ACCOUNTS_VERIFICATION_REQUIRED = True\<rparr>
        ex_authenticator ex_world (ex_form ''new@b.co'' ''pw'') = Inr (u, w', self') \<and>
      username u = ''new@b.co'' \<and> \<not> is_active u \<and> calls w' = [] \<and> session w' = None \<and>
      priv_user self' = None) \<and>
   (\<exists>u w' self'.
      SignupForm_save \<lparr>FORMS_USE_HTML5 = False, ACCOUNTS_VERIFICATION_REQUIRED = False\<rparr>
        ex_authenticator ex_world (ex_form ''new@b.co'' ''pw'') = Inr (u, w', self') \<and>
      username u = ''new@b.co'' \<and> is_active u \<and>
      calls w' = [Authenticate ''new@b.co'' ''pw''] \<and> session w' = None) \<and>
   SignupForm_save \<lparr>FORMS_USE_HTML5 = False, ACCOUNTS_VERIFICATION_REQUIRED = False\<rparr>
     ex_authenticator ex_world (ex_form ''a@b.co'' ''pw'') = Inl IntegrityError"
proof -
  have a': "cleaned_data (ex_form ''a@b.co'' ''pw'') ''email'' = Some ''a@b.co''"
    and b': "cleaned_data (ex_form ''a@b.co'' ''pw'') ''password'' = Some ''pw''"
    by (simp_all add: ex_form_def)
  have c': "users ex_world ''a@b.co'' \<noteq> None"
    by (simp add: ex_world_def)
  from SignupForm_save_creates [OF a' b', where w = ex_world and authenticator = ex_authenticator
      and st = "\<lparr>FORMS_USE_HTML5 = False, ACCOUNTS_VERIFICATION_REQUIRED = False\<rparr>"] c'
  have 3: "SignupForm_save \<lparr>FORMS_USE_HTML5 = False, ACCOUNTS_VERIFICATION_REQUIRED = False\<rparr>
     ex_authenticator ex_world (ex_form ''a@b.co'' ''pw'') = Inl IntegrityError"
    by blast
  have a: "cleaned_data (ex_form ''new@b.co'' ''pw'') ''email'' = Some ''new@b.co''"
    and b: "cleaned_data (ex_form ''new@b.co'' ''pw'') ''password'' = Some ''pw''"
    by (simp_all add: ex_form_def)
  have c: "users ex_world ''new@b.co'' = None"
    by (simp add: ex_world_def)
  have w: "calls ex_world = []" "session ex_world = None"
    by (simp_all add: ex_world_def)
  have f: "priv_user (ex_form ''new@b.co'' ''pw'') = None"
    by (simp add: ex_form_def)
  from SignupForm_save_creates [OF a b, where w = ex_world and authenticator = ex_authenticator
      and st = "\<lparr>FORMS_USE_HTML5 = False, ACCOUNTS_VERIFICATION_REQUIRED = True\<rparr>"] c
  have 1: "\<exists>u w' self'.
      SignupForm_save \<lparr>FORMS_USE_HTML5 = False, ACCOUNTS_VERIFICATION_REQUIRED = True\<rparr>
        ex_authenticator ex_world (ex_form ''new@b.co'' ''pw'') = Inr (u, w', self') \<and>
      username u = ''new@b.co'' \<and> \<not> is_active u \<and> calls w' = [] \<and> session w' = None \<and>
      priv_user self' = None"
    using w f by auto
  from SignupForm_save_creates [OF a b, where w = ex_world and authenticator = ex_authenticator
      and st = "\<lparr>FORMS_USE_HTML5 = False, ACCOUNTS_VERIFICATION_REQUIRED = False\<rparr>"] c
  have 2: "\<exists>u w' self'.
      SignupForm_save \<lparr>FORMS_USE_HTML5 = False, ACCOUNTS_VERIFICATION_REQUIRED = False\<rparr>
        ex_authenticator ex_world (ex_form ''new@b.co'' ''pw'') = Inr (u, w', self') \<and>
      username u = ''new@b.co'' \<and> is_active u \<and>
      calls w' = [Authenticate ''new@b.co'' ''pw''] \<and> session w' = None"
    using w by auto
  from 1 2 3 show ?thesis by blast
qed

theorem LoginForm_clean_outcomes_witness:
  "snd (snd (LoginForm_clean ex_authenticator ex_world (ex_form ''a@b.co'' ''bad'')))
     = Inl (ValidationError ''Invalid email/password'') \<and>
   snd (snd (LoginForm_clean ex_authenticator ex_world (ex_form ''off@b.co'' ''pw'')))
     = Inl (ValidationError ''Your account is inactive'') \<and>
   snd (snd (LoginForm_clean ex_authenticator ex_world (ex_form ''a@b.co'' ''pw'')))
     = Inr [''email'' \<mapsto> ''a@b.co'', ''password'' \<mapsto> ''pw'']"
proof -
  have auth: "ex_authenticator (users ex_world) ''a@b.co'' ''bad'' = None"
    "ex_authenticator (users ex_world) ''off@b.co'' ''pw'' = Some (ex_user ''off@b.co'' False)"
    "ex_authenticator (users ex_world) ''a@b.co'' ''pw'' = Some (ex_user ''a@b.co'' True)"
    by (simp_all add: ex_authenticator_def ex_world_def ex_user_def)
  have cd: "\<And>e p. cleaned_data (ex_form e p) = [''email'' \<mapsto> e, ''password'' \<mapsto> p]"
    by (simp add: ex_form_def)
  have e: "\<And>e p. cleaned_data (ex_form e p) ''email'' = Some e"
    and p: "\<And>e p. cleaned_data (ex_form e p) ''password'' = Some p"
    by (simp_all add: ex_form_def)
  from LoginForm_clean_outcomes [OF e p, of ex_authenticator ex_world "''a@b.co''" "''bad''"]
  have 1: "snd (snd (LoginForm_clean ex_authenticator ex_world (ex_form ''a@b.co'' ''bad'')))
     = Inl (ValidationError ''Invalid email/password'')"
    using auth(1) by auto
  from LoginForm_clean_outcomes [OF e p, of ex_authenticator ex_world "''off@b.co''" "''pw''"]
  have 2: "snd (snd (LoginForm_clean ex_authenticator ex_world (ex_form ''off@b.co'' ''pw'')))
     = Inl (ValidationError ''Your account is inactive'')"
    using auth(2) by (auto simp: ex_user_def)
  from LoginForm_clean_outcomes [OF e p, of ex_authenticator ex_world "''a@b.co''" "''pw''"]
  have 3: "snd (snd (LoginForm_clean ex_authenticator ex_world (ex_form ''a@b.co'' ''pw'')))
     = Inr [''email'' \<mapsto> ''a@b.co'', ''password'' \<mapsto> ''pw'']"
    using auth(3) cd by (auto simp: ex_user_def)
  from 1 2 3 show ?thesis by blast
qed

subsection \<open>The ordered dictionary and the framework's model form\<close>

lemma fold_update_distinct:
  "distinct (map fst acc) \<Longrightarrow>
   distinct (map fst (fold (\<lambda>(k, v) d. AList.update k (h v) d) kvs acc))"
  by (induction kvs arbitrary: acc) (auto simp: distinct_update split: prod.splits)

lemma fold_update_keys:
  "fst ` set (fold (\<lambda>(k, v) d. AList.update k (h v) d) kvs acc) = fst ` set acc \<union> fst ` set kvs"
  by (induction kvs arbitrary: acc) (auto simp: dom_update split: prod.splits)

lemma fold_update_map_of:
  "map_of (fold (\<lambda>(k, v) d. AList.update k (h v) d) kvs acc) k =
     (case map_of (rev kvs) k of Some v \<Rightarrow> Some (h v) | None \<Rightarrow> map_of acc k)"
  by (induction kvs arbitrary: acc) (auto simp: update_conv' map_add_def split: prod.splits option.splits)

lemma EditForm_loop_Inr:
  "distinct ks \<Longrightarrow> EditForm_loop st fm u ks fs = Inr fs' \<Longrightarrow>
   map fst fs' = map fst fs \<and>
   (\<forall>k. k \<notin> set ks \<longrightarrow> map_of fs' k = map_of fs k) \<and>
   (\<forall>k\<in>set ks. \<exists>fld fld'. map_of fs k = Some fld \<and> EditForm_field st fm u k fld = Inr fld' \<and>
        map_of fs' k = Some fld')"
proof (induction ks arbitrary: fs)
  case Nil
  then show ?case by simp
next
  case (Cons f ks)
  from Cons.prems(2) obtain fld fld' where
    fld: "map_of fs f = Some fld" and
    fld': "EditForm_field st fm u f fld = Inr fld'" and
    rest: "EditForm_loop st fm u ks (AList.update f fld' fs) = Inr fs'"
    by (auto split: option.splits sum.splits)
  from Cons.prems(1) have d: "distinct ks" and nf: "f \<notin> set ks" by simp_all
  note IH = Cons.IH [OF d rest]
  from fld have fin: "f \<in> fst ` set fs" by (metis map_of_eq_None_iff option.distinct(1))
  have keys: "map fst fs' = map fst fs"
    using IH fin by (simp add: update_keys)
  have out: "\<forall>k. k \<notin> set (f # ks) \<longrightarrow> map_of fs' k = map_of fs k"
    using IH by (simp add: update_conv')
  have here: "map_of fs' f = Some fld'"
    using IH nf by (simp add: update_conv')
  have others: "\<forall>k\<in>set ks. \<exists>fld fld'. map_of fs k = Some fld \<and>
      EditForm_field st fm u k fld = Inr fld' \<and> map_of fs' k = Some fld'"
  proof
    fix k assume k: "k \<in> set ks"
    with nf have "k \<noteq> f" by auto
    with IH k show "\<exists>fld fld'. map_of fs k = Some fld \<and>
      EditForm_field st fm u k fld = Inr fld' \<and> map_of fs' k = Some fld'"
      by (auto simp: update_conv')
  qed
  from keys out here others fld fld' show ?case by auto
qed

lemma EditForm_loop_succeeds:
  "distinct ks \<Longrightarrow>
   \<forall>k\<in>set ks. \<exists>fld. map_of fs k = Some fld \<and> (\<exists>x. EditForm_field st fm u k fld = Inr x) \<Longrightarrow>
   \<exists>fs'. EditForm_loop st fm u ks fs = Inr fs'"
proof (induction ks arbitrary: fs)
  case Nil
  then show ?case by simp
next
  case (Cons f ks)
  from Cons.prems obtain fld x where
    fld: "map_of fs f = Some fld" and x: "EditForm_field st fm u f fld = Inr x"
    by auto
  from Cons.prems(1) have d: "distinct ks" and nf: "f \<notin> set ks" by simp_all
  have "\<forall>k\<in>set ks. \<exists>fld. map_of (AList.update f x fs) k = Some fld \<and>
          (\<exists>y. EditForm_field st fm u k fld = Inr y)"
  proof
    fix k assume k: "k \<in> set ks"
    with nf have "k \<noteq> f" by auto
    with Cons.prems(2) k show "\<exists>fld. map_of (AList.update f x fs) k = Some fld \<and>
          (\<exists>y. EditForm_field st fm u k fld = Inr y)"
      by (simp add: update_conv')
  qed
  from Cons.IH [OF d this] fld x show ?case by simp
qed

lemma map_of_rev_graph:
  "map_of (rev (map (\<lambda>n. (n, g n)) names)) k = (if k \<in> set names then Some (g k) else None)"
  by (induction names) (auto simp: map_add_def split: option.splits)

lemma sorted_dict_map_of: "map_of (sorted_dict kvs) k = map_of (rev kvs) k"
  unfolding sorted_dict_def
  using fold_update_map_of [where h = "\<lambda>v. v" and acc = "[]" and kvs = kvs and k = k]
  by (simp split: option.splits)

lemma sorted_dict_distinct: "distinct (map fst (sorted_dict kvs))"
  unfolding sorted_dict_def
  using fold_update_distinct [where h = "\<lambda>v. v" and acc = "[]" and kvs = kvs] by simp

lemma sorted_dict_keys: "fst ` set (sorted_dict kvs) = fst ` set kvs"
  unfolding sorted_dict_def
  using fold_update_keys [where h = "\<lambda>v. v" and acc = "[]" and kvs = kvs] by simp

lemma fields_for_model_map_of:
  "map_of (fields_for_model m names) k =
     (if k \<in> set names then Some (map_of (model_formfields m) k) else None)"
  by (simp add: fields_for_model_def sorted_dict_map_of map_of_rev_graph)

lemma fields_for_model_distinct: "distinct (map fst (fields_for_model m names))"
  by (simp add: fields_for_model_def sorted_dict_distinct)

lemma fields_for_model_keys: "fst ` set (fields_for_model m names) = set names"
  by (simp add: fields_for_model_def sorted_dict_keys image_image)

lemma set_map_filter_some:
  "set (List.map_filter (\<lambda>(k, v). map_option (Pair k) v) xs) = {(k, f). (k, Some f) \<in> set xs}"
  by (induction xs) (auto split: option.splits)

lemma keys_map_filter_some:
  "map fst (List.map_filter (\<lambda>(k, v). map_option (Pair k) v) xs) =
   map fst (filter (\<lambda>(k, v). v \<noteq> None) xs)"
  by (induction xs) (auto split: option.splits)

lemma map_of_map_filter_some:
  assumes "distinct (map fst xs)"
  shows "map_of (List.map_filter (\<lambda>(k, v). map_option (Pair k) v) xs) k =
           (case map_of xs k of Some (Some f) \<Rightarrow> Some f | _ \<Rightarrow> None)"
proof -
  let ?ys = "List.map_filter (\<lambda>(k, v). map_option (Pair k) v) xs"
  have d: "distinct (map fst ?ys)"
    using assms by (simp add: keys_map_filter_some distinct_map_filter)
  have iff: "\<And>f. map_of ?ys k = Some f \<longleftrightarrow> map_of xs k = Some (Some f)"
    using d assms by (simp add: set_map_filter_some)
  show ?thesis
  proof (cases "map_of ?ys k")
    case None
    with iff have "\<forall>f. map_of xs k \<noteq> Some (Some f)" by (metis option.distinct(1))
    with None show ?thesis by (auto split: option.splits)
  next
    case (Some f)
    with iff [of f] have "map_of xs k = Some (Some f)" by blast
    with Some show ?thesis by simp
  qed
qed

lemma ModelForm_fields_Inr:
  assumes "ModelForm_fields m names declared = Inr fs"
  shows "distinct (map fst fs)"
    and "fst ` set fs = set names \<union> fst ` set declared"
    and "map_of fs k =
           (case map_of (rev declared) k of
              Some v \<Rightarrow> Some v
            | None \<Rightarrow> if k \<in> set names then map_of (model_formfields m) k else None)"
proof -
  let ?fd = "fields_for_model m names"
  let ?upd = "fold (\<lambda>(k, v) d. AList.update k (Some v) d) declared ?fd"
  from assms have fs: "fs = List.map_filter (\<lambda>(k, v). map_option (Pair k) v) ?upd"
    and missing: "filter (\<lambda>k. k \<notin> set (map fst declared))
                    (map fst (filter (\<lambda>(k, v). v = None) ?fd)) = []"
    by (auto simp: ModelForm_fields_def Let_def split: if_splits)
  have none_declared: "k' \<in> fst ` set declared" if "(k', None) \<in> set ?fd" for k'
  proof (rule ccontr)
    assume "k' \<notin> fst ` set declared"
    with that have "k' \<in> set (filter (\<lambda>k. k \<notin> set (map fst declared))
                    (map fst (filter (\<lambda>(k, v). v = None) ?fd)))"
      by force
    with missing show False by simp
  qed
  have dupd: "distinct (map fst ?upd)"
    by (rule fold_update_distinct [where h = Some]) (rule fields_for_model_distinct)
  have mupd: "map_of ?upd k' =
      (case map_of (rev declared) k' of Some v \<Rightarrow> Some (Some v) | None \<Rightarrow> map_of ?fd k')" for k'
    by (rule fold_update_map_of [where h = Some])
  have decl: "k' \<in> fst ` set declared \<longleftrightarrow> map_of (rev declared) k' \<noteq> None" for k'
    by (simp add: map_of_eq_None_iff)
  have no_none: "v \<noteq> None" if "(k', v) \<in> set ?upd" for k' v
  proof
    assume "v = None"
    with that dupd have m: "map_of ?upd k' = Some None" by simp
    with mupd [of k'] have "map_of (rev declared) k' = None" and "map_of ?fd k' = Some None"
      by (auto split: option.splits)
    with none_declared [of k'] decl [of k'] show False
      by (auto dest: map_of_SomeD)
  qed
  show "distinct (map fst fs)"
    using dupd by (simp add: fs keys_map_filter_some distinct_map_filter)
  have "filter (\<lambda>(k, v). v \<noteq> None) ?upd = ?upd"
    using no_none by (auto simp: filter_id_conv)
  then have "map fst fs = map fst ?upd"
    by (simp add: fs keys_map_filter_some)
  then have "fst ` set fs = fst ` set ?upd"
    by (metis list.set_map)
  then show "fst ` set fs = set names \<union> fst ` set declared"
    using fold_update_keys [where h = Some and acc = ?fd and kvs = declared]
    by (simp add: fields_for_model_keys)
  have "map_of fs k = (case map_of ?upd k of Some (Some f) \<Rightarrow> Some f | _ \<Rightarrow> None)"
    unfolding fs by (rule map_of_map_filter_some [OF dupd])
  moreover have "map_of ?upd k \<noteq> Some None"
    using no_none [of k None] by (auto dest: map_of_SomeD)
  ultimately show "map_of fs k =
           (case map_of (rev declared) k of
              Some v \<Rightarrow> Some v
            | None \<Rightarrow> if k \<in> set names then map_of (model_formfields m) k else None)"
    using mupd [of k] by (auto simp: fields_for_model_map_of split: option.splits if_splits)
qed

lemma ModelForm_fields_succeeds:
  assumes "\<forall>n\<in>set names. n \<in> fst ` set (model_formfields m)"
  shows "\<exists>fs. ModelForm_fields m names declared = Inr fs"
proof -
  have "v \<noteq> None" if "(k, v) \<in> set (fields_for_model m names)" for k v
  proof -
    from that fields_for_model_distinct [of m names]
    have "map_of (fields_for_model m names) k = Some v" by simp
    then have "k \<in> set names" and "v = map_of (model_formfields m) k"
      by (auto simp: fields_for_model_map_of split: if_splits)
    with assms show ?thesis by (auto simp: map_of_eq_None_iff)
  qed
  then have "filter (\<lambda>(k, v). v = None) (fields_for_model m names) = []"
    by (auto simp: filter_empty_conv)
  then show ?thesis
    by (simp add: ModelForm_fields_def Let_def)
qed

subsection \<open>The edit form: structure of a built form\<close>

lemma EditForm_declared_map_of:
  "map_of (rev EditForm_declared) k =
     (if k \<in> {''app'', ''model'', ''id'', ''fields''} then Some hidden_field else None)"
  by (simp add: EditForm_declared_def)

lemma EditForm_declared_keys:
  "fst ` set EditForm_declared = {''app'', ''model'', ''id'', ''fields''}"
  by (auto simp: EditForm_declared_def)

lemma EditForm_super_Inr:
  assumes "EditForm_super ob field_names d f = Inr self"
  shows "distinct (map fst (form_fields self))"
    and "fst ` set (form_fields self) =
           set (split_comma field_names) \<union> {''app'', ''model'', ''id'', ''fields''}"
    and "map_of (form_fields self) k =
           (if k \<in> {''app'', ''model'', ''id'', ''fields''} then Some hidden_field
            else if k \<in> set (split_comma field_names)
              then map_of (model_formfields (obj_meta ob)) k else None)"
    and "initial self = model_to_dict ob (split_comma field_names) ++ edit_initial ob field_names"
    and "meta_model self = obj_meta ob"
    and "meta_fields self = Some (split_comma field_names)"
    and "form_instance self = Some ob"
    and "data self = d" and "files self = f"
proof -
  from assms obtain fs where
    fs: "ModelForm_fields (obj_meta ob) (split_comma field_names) EditForm_declared = Inr fs"
    and self: "self = \<lparr>data = d, files = f,
        initial = model_to_dict ob (split_comma field_names) ++ edit_initial ob field_names,
        form_fields = fs, cleaned_data = Map.empty, meta_model = obj_meta ob,
        meta_fields = Some (split_comma field_names), form_instance = Some ob\<rparr>"
    by (auto simp: EditForm_super_def ModelForm_init_def split: sum.splits)
  from ModelForm_fields_Inr(1) [OF fs] show "distinct (map fst (form_fields self))"
    by (simp add: self)
  from ModelForm_fields_Inr(2) [OF fs]
  show "fst ` set (form_fields self) =
           set (split_comma field_names) \<union> {''app'', ''model'', ''id'', ''fields''}"
    by (simp add: self EditForm_declared_keys)
  from ModelForm_fields_Inr(3) [OF fs, of k]
  show "map_of (form_fields self) k =
           (if k \<in> {''app'', ''model'', ''id'', ''fields''} then Some hidden_field
            else if k \<in> set (split_comma field_names)
              then map_of (model_formfields (obj_meta ob)) k else None)"
    by (simp add: self EditForm_declared_map_of)
  show "initial self = model_to_dict ob (split_comma field_names) ++ edit_initial ob field_names"
    and "meta_model self = obj_meta ob"
    and "meta_fields self = Some (split_comma field_names)"
    and "form_instance self = Some ob"
    and "data self = d" and "files self = f"
    by (simp_all add: self)
qed

lemma EditForm_init_Inr:
  assumes "EditForm_init st fm u self = Inr frm"
      and "distinct (map fst (form_fields self))"
  shows "map fst (form_fields frm) = map fst (form_fields self)"
    and "map_of (form_fields self) k = Some fld \<Longrightarrow>
           \<exists>fld1. override_widget fm fld = Inr fld1 \<and>
                  map_of (form_fields frm) k = Some (decorate st u k fld1)"
    and "uuid frm = u" and "initial frm = initial self" and "meta_model frm = meta_model self"
    and "meta_fields frm = meta_fields self" and "form_instance frm = form_instance self"
proof -
  from assms(1) obtain fs where
    loop: "EditForm_loop st fm u (map fst (form_fields self)) (form_fields self) = Inr fs"
    and frm: "frm = \<lparr>data = data self, files = files self, initial = initial self,
        form_fields = fs, cleaned_data = cleaned_data self, meta_model = meta_model self,
        meta_fields = meta_fields self, form_instance = form_instance self, uuid = u\<rparr>"
    by (auto simp: EditForm_init_def split: sum.splits)
  note L = EditForm_loop_Inr [OF assms(2) loop]
  from L show "map fst (form_fields frm) = map fst (form_fields self)"
    by (simp add: frm)
  show "uuid frm = u" and "initial frm = initial self" and "meta_model frm = meta_model self"
    and "meta_fields frm = meta_fields self" and "form_instance frm = form_instance self"
    by (simp_all add: frm)
  show "\<exists>fld1. override_widget fm fld = Inr fld1 \<and>
                  map_of (form_fields frm) k = Some (decorate st u k fld1)"
    if k: "map_of (form_fields self) k = Some fld"
  proof -
    from k have "k \<in> set (map fst (form_fields self))"
      by (metis map_of_eq_None_iff option.distinct(1) list.set_map)
    with L obtain fld0 fld' where
      "map_of (form_fields self) k = Some fld0"
      "EditForm_field st fm u k fld0 = Inr fld'"
      "map_of fs k = Some fld'"
      by blast
    with k show ?thesis
      by (auto simp: frm EditForm_field_def split: sum.splits)
  qed
qed

lemma override_widget_succeeds:
  assumes "WIDGETS fm (DATE fm) \<noteq> None \<and> WIDGETS fm (DATE_TIME fm) \<noteq> None \<and>
           WIDGETS fm (EMAIL fm) \<noteq> None"
  shows "\<exists>fld1. override_widget fm fld = Inr fld1"
  using assms
  by (cases "field_class fld") (auto simp: override_widget_def widget_overrides_def)

lemma EditForm_init_succeeds:
  assumes "distinct (map fst (form_fields self))"
      and "WIDGETS fm (DATE fm) \<noteq> None \<and> WIDGETS fm (DATE_TIME fm) \<noteq> None \<and>
           WIDGETS fm (EMAIL fm) \<noteq> None"
  shows "\<exists>frm. EditForm_init st fm u self = Inr frm"
proof -
  have "\<forall>k\<in>set (map fst (form_fields self)).
          \<exists>fld. map_of (form_fields self) k = Some fld \<and>
                (\<exists>x. EditForm_field st fm u k fld = Inr x)"
  proof
    fix k assume "k \<in> set (map fst (form_fields self))"
    then obtain fld where fld: "map_of (form_fields self) k = Some fld"
      by (metis map_of_eq_None_iff not_Some_eq list.set_map)
    from override_widget_succeeds [OF assms(2), of fld]
    have "\<exists>x. EditForm_field st fm u k fld = Inr x"
      by (auto simp: EditForm_field_def)
    with fld show "\<exists>fld. map_of (form_fields self) k = Some fld \<and>
                (\<exists>x. EditForm_field st fm u k fld = Inr x)"
      by blast
  qed
  from EditForm_loop_succeeds [OF assms(1) this]
  show ?thesis by (auto simp: EditForm_init_def)
qed

lemma get_edit_form_Inr:
  assumes "get_edit_form st fm u ob field_names d f = Inr frm"
  shows "\<exists>self. EditForm_super ob field_names d f = Inr self \<and>
                EditForm_init st fm u self = Inr frm"
  using assms by (auto simp: get_edit_form_def split: sum.splits)

lemma get_edit_form_succeeds:
  assumes "\<forall>n\<in>set (split_comma field_names). n \<in> fst ` set (model_formfields (obj_meta ob))"
      and "WIDGETS fm (DATE fm) \<noteq> None \<and> WIDGETS fm (DATE_TIME fm) \<noteq> None \<and>
           WIDGETS fm (EMAIL fm) \<noteq> None"
  shows "\<exists>frm. get_edit_form st fm u ob field_names d f = Inr frm"
proof -
  from ModelForm_fields_succeeds [OF assms(1), of EditForm_declared]
  obtain self where self: "EditForm_super ob field_names d f = Inr self"
    by (auto simp: EditForm_super_def ModelForm_init_def)
  from EditForm_init_succeeds [OF EditForm_super_Inr(1) [OF self] assms(2), of st u] self
  show ?thesis by (auto simp: get_edit_form_def)
qed

lemma decorate_simps:
  "field_class (decorate st u k fld) = field_class fld"
  "required (decorate st u k fld) = required fld"
  "label (decorate st u k fld) = label fld"
  "widget_class (widget (decorate st u k fld)) = widget_class (widget fld)"
  "attrs (widget (decorate st u k fld)) ''class'' =
     Some (get_default (attrs (widget fld)) ''class'' [] @ '' '' @ lower (class_name (field_class fld)))"
  "attrs (widget (decorate st u k fld)) ''id'' = Some (k @ ''-'' @ u)"
  "attrs (widget (decorate st u k fld)) ''required'' =
     (if FORMS_USE_HTML5 st \<and> required fld then Some [] else attrs (widget fld) ''required'')"
  "a \<notin> {''class'', ''id'', ''required''} \<Longrightarrow>
     attrs (widget (decorate st u k fld)) a = attrs (widget fld) a"
  by (simp_all add: decorate_def set_attr_def Let_def)

lemma ex_edit_form_built:
  "\<exists>frm. get_edit_form (ex_settings h) ex_fields_module ''u1'' ex_obj ''title,start_date''
           None None = Inr frm"
  by (rule get_edit_form_succeeds)
     (simp_all add: ex_obj_def ex_model_def ex_fields_module_def)

lemma ex_edit_form_super:
  assumes "EditForm_super ex_obj ''title,start_date'' None None = Inr self"
  shows "map_of (form_fields self) ''title'' =
           Some \<lparr>field_class = CharField, label = Some ''Title'', required = True,
                 widget = \<lparr>widget_class = ''TextInput'', attrs = [''class'' \<mapsto> ''big'']\<rparr>\<rparr>"
    and "map_of (form_fields self) ''start_date'' =
           Some \<lparr>field_class = DateField, label = Some ''Start date'', required = False,
                 widget = new_widget ''DateInput''\<rparr>"
  using EditForm_super_Inr(3) [OF assms, of "''title''"]
        EditForm_super_Inr(3) [OF assms, of "''start_date''"]
  by (simp_all add: ex_obj_def ex_model_def)

lemma lower_names:
  "lower ''CharField'' = ''charfield''" "lower ''DateField'' = ''datefield''"
  "lower ''BlogPost'' = ''blogpost''"
  by code_simp+

lemma update_new_key:
  "k \<notin> fst ` set al \<Longrightarrow> AList.update k v al = al @ [(k, v)]"
  by (induction al) auto





subsection \<open>The dynamic inline form\<close>

text \<open>
  C7. Constructing a \<open>DynamicInlineAdminForm\<close> over the model-bound form \<open>self\<close>:
  when the model is orderable, the field dictionary gets under \<open>_order\<close> an optional
  character field with the order widget; its keys are those of \<open>self\<close> and
  \<open>_order\<close>, the new field is appended when \<open>self\<close> had no such key, and every
  other field is unchanged. When the model is not orderable the form is \<open>self\<close>,
  unchanged.
\<close>

theorem DynamicInlineAdminForm_order_field:
  "(orderable (meta_model self) \<longrightarrow>
      map_of (form_fields (DynamicInlineAdminForm_init self)) ''_order'' = Some order_field \<and>
      field_class order_field = CharField \<and> \<not> required order_field \<and>
      widget_class (widget order_field) = ''OrderWidget'' \<and>
      fst ` set (form_fields (DynamicInlineAdminForm_init self)) =
        insert ''_order'' (fst ` set (form_fields self)) \<and>
      (''_order'' \<notin> fst ` set (form_fields self) \<longrightarrow>
         form_fields (DynamicInlineAdminForm_init self) =
           form_fields self @ [(''_order'', order_field)]) \<and>
      (\<forall>k. k \<noteq> ''_order'' \<longrightarrow>
         map_of (form_fields (DynamicInlineAdminForm_init self)) k = map_of (form_fields self) k)) \<and>
   (\<not> orderable (meta_model self) \<longrightarrow> DynamicInlineAdminForm_init self = self)"
  by (simp add: DynamicInlineAdminForm_init_def update_conv' dom_update order_field_def
      new_widget_def update_new_key)

theorem DynamicInlineAdminForm_order_field_witness:
  "form_fields (DynamicInlineAdminForm_init (ex_model_form True)) =
     form_fields (ex_model_form True) @ [(''_order'', order_field)] \<and>
   DynamicInlineAdminForm_init (ex_model_form False) = ex_model_form False"
proof -
  have a: "orderable (meta_model (ex_model_form True))"
    and b: "\<not> orderable (meta_model (ex_model_form False))"
    and c: "''_order'' \<notin> fst ` set (form_fields (ex_model_form True))"
    by (simp_all add: ex_model_form_def ex_model_def)
  from DynamicInlineAdminForm_order_field [of "ex_model_form True"]
       DynamicInlineAdminForm_order_field [of "ex_model_form False"] a b c
  show ?thesis by blast
qed

subsection \<open>The edit-form factory\<close>




text \<open>
  C6. In every form \<open>get_edit_form\<close> builds, with \<open>self\<close> the form as the
  framework's constructor left it: the keys are unchanged, and for every field \<open>fld\<close>
  of \<open>self\<close> under a key \<open>k\<close> there is a widget \<open>w\<close> such that: \<open>w\<close> is what
  \<open>WIDGETS\<close> gives for the date, date-time or email type when the field's class is
  \<open>DateField\<close>, \<open>DateTimeField\<close> or \<open>EmailField\<close>, and the field's own
  widget otherwise; the final widget has the class of \<open>w\<close> and all its attributes
  apart from the three written; its \<open>class\<close> attribute is the one \<open>w\<close> had (empty
  when it had none), a space, and the lower-cased name of the field's class; and its
  \<open>id\<close> attribute is the key, a hyphen and the uuid of the form.
\<close>

theorem EditForm_widget_class_id:
  assumes "get_edit_form st fm u ob field_names d f = Inr frm"
  shows "\<exists>self. EditForm_super ob field_names d f = Inr self \<and> uuid frm = u \<and>
           map fst (form_fields frm) = map fst (form_fields self) \<and>
           (\<forall>k fld. map_of (form_fields self) k = Some fld \<longrightarrow>
              (\<exists>fld' w. map_of (form_fields frm) k = Some fld' \<and>
                 field_class fld' = field_class fld \<and>
                 (field_class fld = DateField \<longrightarrow> WIDGETS fm (DATE fm) = Some w) \<and>
                 (field_class fld = DateTimeField \<longrightarrow> WIDGETS fm (DATE_TIME fm) = Some w) \<and>
                 (field_class fld = EmailField \<longrightarrow> WIDGETS fm (EMAIL fm) = Some w) \<and>
                 (field_class fld \<notin> {DateField, DateTimeField, EmailField} \<longrightarrow> w = widget fld) \<and>
                 widget_class (widget fld') = widget_class w \<and>
                 attrs (widget fld') ''class'' =
                   Some (get_default (attrs w) ''class'' [] @ '' '' @
                         lower (class_name (field_class fld))) \<and>
                 attrs (widget fld') ''id'' = Some (k @ ''-'' @ uuid frm) \<and>
                 (\<forall>a. a \<notin> {''class'', ''id'', ''required''} \<longrightarrow>
                    attrs (widget fld') a = attrs w a)))"
proof -
  from get_edit_form_Inr [OF assms] obtain self where
    self: "EditForm_super ob field_names d f = Inr self" and
    init: "EditForm_init st fm u self = Inr frm" by blast
  note S = EditForm_super_Inr [OF self]
  note I = EditForm_init_Inr [OF init S(1)]
  have "\<exists>fld' w. map_of (form_fields frm) k = Some fld' \<and>
                 field_class fld' = field_class fld \<and>
                 (field_class fld = DateField \<longrightarrow> WIDGETS fm (DATE fm) = Some w) \<and>
                 (field_class fld = DateTimeField \<longrightarrow> WIDGETS fm (DATE_TIME fm) = Some w) \<and>
                 (field_class fld = EmailField \<longrightarrow> WIDGETS fm (EMAIL fm) = Some w) \<and>
                 (field_class fld \<notin> {DateField, DateTimeField, EmailField} \<longrightarrow> w = widget fld) \<and>
                 widget_class (widget fld') = widget_class w \<and>
                 attrs (widget fld') ''class'' =
                   Some (get_default (attrs w) ''class'' [] @ '' '' @
                         lower (class_name (field_class fld))) \<and>
                 attrs (widget fld') ''id'' = Some (k @ ''-'' @ uuid frm) \<and>
                 (\<forall>a. a \<notin> {''class'', ''id'', ''required''} \<longrightarrow>
                    attrs (widget fld') a = attrs w a)"
    if k: "map_of (form_fields self) k = Some fld" for k fld
  proof -
    from I(2) [OF k] obtain fld1 where
      ov: "override_widget fm fld = Inr fld1" and
      res: "map_of (form_fields frm) k = Some (decorate st u k fld1)" by blast
    from ov have cls: "field_class fld1 = field_class fld"
      by (auto simp: override_widget_def split: option.splits)
    from ov have w:
      "field_class fld = DateField \<longrightarrow> WIDGETS fm (DATE fm) = Some (widget fld1)"
      "field_class fld = DateTimeField \<longrightarrow> WIDGETS fm (DATE_TIME fm) = Some (widget fld1)"
      "field_class fld = EmailField \<longrightarrow> WIDGETS fm (EMAIL fm) = Some (widget fld1)"
      "field_class fld \<notin> {DateField, DateTimeField, EmailField} \<longrightarrow> widget fld1 = widget fld"
      by (cases "field_class fld";
          auto simp: override_widget_def widget_overrides_def split: option.splits)+
    show ?thesis
      apply (rule exI [of _ "decorate st u k fld1"])
      apply (rule exI [of _ "widget fld1"])
      using res w by (simp add: decorate_simps cls I(3))
  qed
  with self I(1) I(3) show ?thesis by blast
qed

theorem EditForm_widget_class_id_witness:
  "\<exists>frm. get_edit_form (ex_settings False) ex_fields_module ''u1'' ex_obj ''title,start_date''
          None None = Inr frm \<and>
     (\<exists>fld'. map_of (form_fields frm) ''start_date'' = Some fld' \<and>
        widget_class (widget fld') = ''SelectDateWidget'' \<and>
        attrs (widget fld') ''class'' = Some '' datefield'' \<and>
        attrs (widget fld') ''id'' = Some ''start_date-u1'') \<and>
     (\<exists>fld'. map_of (form_fields frm) ''title'' = Some fld' \<and>
        widget_class (widget fld') = ''TextInput'' \<and>
        attrs (widget fld') ''class'' = Some ''big charfield'' \<and>
        attrs (widget fld') ''id'' = Some ''title-u1'')"
proof -
  from ex_edit_form_built [of False] obtain frm where
    frm: "get_edit_form (ex_settings False) ex_fields_module ''u1'' ex_obj ''title,start_date''
          None None = Inr frm" by blast
  from EditForm_widget_class_id [OF frm] obtain self where
    self: "EditForm_super ex_obj ''title,start_date'' None None = Inr self" and
    u: "uuid frm = ''u1''" and
    every: "\<And>k fld. map_of (form_fields self) k = Some fld \<Longrightarrow>
              (\<exists>fld' w. map_of (form_fields frm) k = Some fld' \<and>
                 field_class fld' = field_class fld \<and>
                 (field_class fld = DateField \<longrightarrow>
                    WIDGETS ex_fields_module (DATE ex_fields_module) = Some w) \<and>
                 (field_class fld = DateTimeField \<longrightarrow>
                    WIDGETS ex_fields_module (DATE_TIME ex_fields_module) = Some w) \<and>
                 (field_class fld = EmailField \<longrightarrow>
                    WIDGETS ex_fields_module (EMAIL ex_fields_module) = Some w) \<and>
                 (field_class fld \<notin> {DateField, DateTimeField, EmailField} \<longrightarrow> w = widget fld) \<and>
                 widget_class (widget fld') = widget_class w \<and>
                 attrs (widget fld') ''class'' =
                   Some (get_default (attrs w) ''class'' [] @ '' '' @
                         lower (class_name (field_class fld))) \<and>
                 attrs (widget fld') ''id'' = Some (k @ ''-'' @ uuid frm) \<and>
                 (\<forall>a. a \<notin> {''class'', ''id'', ''required''} \<longrightarrow>
                    attrs (widget fld') a = attrs w a))"
    by blast
  from every [OF ex_edit_form_super(2) [OF self]]
  have date: "\<exists>fld'. map_of (form_fields frm) ''start_date'' = Some fld' \<and>
        widget_class (widget fld') = ''SelectDateWidget'' \<and>
        attrs (widget fld') ''class'' = Some '' datefield'' \<and>
        attrs (widget fld') ''id'' = Some ''start_date-u1''"
    by (auto simp: u ex_fields_module_def new_widget_def get_default_def lower_names)
  from every [OF ex_edit_form_super(1) [OF self]]
  have title: "\<exists>fld'. map_of (form_fields frm) ''title'' = Some fld' \<and>
        widget_class (widget fld') = ''TextInput'' \<and>
        attrs (widget fld') ''class'' = Some ''big charfield'' \<and>
        attrs (widget fld') ''id'' = Some ''title-u1''"
    by (auto simp: u get_default_def lower_names)
  from frm date title show ?thesis by blast
qed

text \<open>
  C8. In every form \<open>get_edit_form\<close> builds, for every field \<open>fld\<close> of the form
  the framework's constructor left, with \<open>fld1\<close> that field after the widget
  substitution: the final field is required exactly when \<open>fld\<close> is, and the
  \<open>required\<close> attribute of its widget is the empty string when the HTML5 flag is set
  and the field is required; otherwise the constructor does not write it and it is
  what the widget of \<open>fld1\<close> had. With the flag unset this holds of every field.
\<close>

theorem EditForm_required_attr:
  assumes "get_edit_form st fm u ob field_names d f = Inr frm"
  shows "\<exists>self. EditForm_super ob field_names d f = Inr self \<and>
           (\<forall>k fld. map_of (form_fields self) k = Some fld \<longrightarrow>
              (\<exists>fld' fld1. override_widget fm fld = Inr fld1 \<and>
                 map_of (form_fields frm) k = Some fld' \<and>
                 required fld' = required fld \<and>
                 attrs (widget fld') ''required'' =
                   (if FORMS_USE_HTML5 st \<and> required fld then Some []
                    else attrs (widget fld1) ''required'')))"
proof -
  from get_edit_form_Inr [OF assms] obtain self where
    self: "EditForm_super ob field_names d f = Inr self" and
    init: "EditForm_init st fm u self = Inr frm" by blast
  note S = EditForm_super_Inr [OF self]
  note I = EditForm_init_Inr [OF init S(1)]
  have "\<exists>fld' fld1. override_widget fm fld = Inr fld1 \<and>
                 map_of (form_fields frm) k = Some fld' \<and>
                 required fld' = required fld \<and>
                 attrs (widget fld') ''required'' =
                   (if FORMS_USE_HTML5 st \<and> required fld then Some []
                    else attrs (widget fld1) ''required'')"
    if k: "map_of (form_fields self) k = Some fld" for k fld
  proof -
    from I(2) [OF k] obtain fld1 where
      ov: "override_widget fm fld = Inr fld1" and
      res: "map_of (form_fields frm) k = Some (decorate st u k fld1)" by blast
    from ov have req: "required fld1 = required fld"
      by (auto simp: override_widget_def split: option.splits)
    show ?thesis
      apply (rule exI [of _ "decorate st u k fld1"])
      apply (rule exI [of _ fld1])
      using res ov by (simp add: decorate_simps req)
  qed
  with self show ?thesis by blast
qed

theorem EditForm_required_attr_witness:
  "(\<exists>frm. get_edit_form (ex_settings True) ex_fields_module ''u1'' ex_obj ''title,start_date''
          None None = Inr frm \<and>
     (\<exists>fld'. map_of (form_fields frm) ''title'' = Some fld' \<and>
        attrs (widget fld') ''required'' = Some []) \<and>
     (\<exists>fld'. map_of (form_fields frm) ''start_date'' = Some fld' \<and>
        attrs (widget fld') ''required'' = None)) \<and>
   (\<exists>frm. get_edit_form (ex_settings False) ex_fields_module ''u1'' ex_obj ''title,start_date''
          None None = Inr frm \<and>
     (\<exists>fld'. map_of (form_fields frm) ''title'' = Some fld' \<and>
        attrs (widget fld') ''required'' = None))"
proof -
  have ov_title: "override_widget ex_fields_module
      \<lparr>field_class = CharField, label = Some ''Title'', required = True,
        widget = \<lparr>widget_class = ''TextInput'', attrs = [''class'' \<mapsto> ''big'']\<rparr>\<rparr> = Inr fld1
      \<Longrightarrow> attrs (widget fld1) ''required'' = None" for fld1
    by (auto simp: override_widget_def widget_overrides_def)
  have ov_date: "override_widget ex_fields_module
      \<lparr>field_class = DateField, label = Some ''Start date'', required = False,
        widget = new_widget ''DateInput''\<rparr> = Inr fld1
      \<Longrightarrow> attrs (widget fld1) ''required'' = None" for fld1
    by (auto simp: override_widget_def widget_overrides_def ex_fields_module_def new_widget_def)
  have on: "\<exists>frm. get_edit_form (ex_settings True) ex_fields_module ''u1'' ex_obj
          ''title,start_date'' None None = Inr frm \<and>
     (\<exists>fld'. map_of (form_fields frm) ''title'' = Some fld' \<and>
        attrs (widget fld') ''required'' = Some []) \<and>
     (\<exists>fld'. map_of (form_fields frm) ''start_date'' = Some fld' \<and>
        attrs (widget fld') ''required'' = None)"
  proof -
    from ex_edit_form_built [of True] obtain frm where
      frm: "get_edit_form (ex_settings True) ex_fields_module ''u1'' ex_obj ''title,start_date''
            None None = Inr frm" by blast
    from EditForm_required_attr [OF frm] obtain self where
      self: "EditForm_super ex_obj ''title,start_date'' None None = Inr self" and
      every: "\<And>k fld. map_of (form_fields self) k = Some fld \<Longrightarrow>
              (\<exists>fld' fld1. override_widget ex_fields_module fld = Inr fld1 \<and>
                 map_of (form_fields frm) k = Some fld' \<and>
                 required fld' = required fld \<and>
                 attrs (widget fld') ''required'' =
                   (if FORMS_USE_HTML5 (ex_settings True) \<and> required fld then Some []
                    else attrs (widget fld1) ''required''))"
      by blast
    from every [OF ex_edit_form_super(1) [OF self]]
    have t: "\<exists>fld'. map_of (form_fields frm) ''title'' = Some fld' \<and>
        attrs (widget fld') ''required'' = Some []"
      by (auto simp: ex_settings_def)
    from every [OF ex_edit_form_super(2) [OF self]] ov_date
    have s: "\<exists>fld'. map_of (form_fields frm) ''start_date'' = Some fld' \<and>
        attrs (widget fld') ''required'' = None"
      by auto
    from frm t s show ?thesis by blast
  qed
  have off: "\<exists>frm. get_edit_form (ex_settings False) ex_fields_module ''u1'' ex_obj
          ''title,start_date'' None None = Inr frm \<and>
     (\<exists>fld'. map_of (form_fields frm) ''title'' = Some fld' \<and>
        attrs (widget fld') ''required'' = None)"
  proof -
    from ex_edit_form_built [of False] obtain frm where
      frm: "get_edit_form (ex_settings False) ex_fields_module ''u1'' ex_obj ''title,start_date''
            None None = Inr frm" by blast
    from EditForm_required_attr [OF frm] obtain self where
      self: "EditForm_super ex_obj ''title,start_date'' None None = Inr self" and
      every: "\<And>k fld. map_of (form_fields self) k = Some fld \<Longrightarrow>
              (\<exists>fld' fld1. override_widget ex_fields_module fld = Inr fld1 \<and>
                 map_of (form_fields frm) k = Some fld' \<and>
                 required fld' = required fld \<and>
                 attrs (widget fld') ''required'' =
                   (if FORMS_USE_HTML5 (ex_settings False) \<and> required fld then Some []
                    else attrs (widget fld1) ''required''))"
      by blast
    from every [OF ex_edit_form_super(1) [OF self]] ov_title
    have t: "\<exists>fld'. map_of (form_fields frm) ''title'' = Some fld' \<and>
        attrs (widget fld') ''required'' = None"
      by (auto simp: ex_settings_def)
    from frm t show ?thesis by blast
  qed
  from on off show ?thesis by blast
qed

text \<open>
  C9. In every form \<open>get_edit_form\<close> builds, the four declared hidden fields
  \<open>app\<close>, \<open>model\<close>, \<open>id\<close> and \<open>fields\<close> are processed like the model's
  fields: each is still a hidden character field, its widget's \<open>id\<close> is its name, a
  hyphen and the form's uuid, its \<open>class\<close> attribute is the string
  \<open>" charfield"\<close> (the single class \<open>charfield\<close>), and it has the \<open>required\<close>
  attribute exactly when the HTML5 flag is set. Every key of the form has a widget with
  such an \<open>id\<close> and a \<open>class\<close> that ends in the lower-cased name of its field's
  class.
\<close>

theorem EditForm_hidden_fields_processed:
  assumes "get_edit_form st fm u ob field_names d f = Inr frm"
  shows "uuid frm = u \<and>
         (\<forall>k\<in>{''app'', ''model'', ''id'', ''fields''}.
            \<exists>fld'. map_of (form_fields frm) k = Some fld' \<and>
              field_class fld' = CharField \<and>
              widget_class (widget fld') = ''HiddenInput'' \<and>
              attrs (widget fld') ''id'' = Some (k @ ''-'' @ uuid frm) \<and>
              attrs (widget fld') ''class'' = Some '' charfield'' \<and>
              attrs (widget fld') ''required'' = (if FORMS_USE_HTML5 st then Some [] else None)) \<and>
         (\<forall>k\<in>fst ` set (form_fields frm).
            \<exists>fld' c. map_of (form_fields frm) k = Some fld' \<and>
              attrs (widget fld') ''id'' = Some (k @ ''-'' @ uuid frm) \<and>
              attrs (widget fld') ''class'' = Some (c @ '' '' @ lower (class_name (field_class fld'))))"
proof -
  from get_edit_form_Inr [OF assms] obtain self where
    self: "EditForm_super ob field_names d f = Inr self" and
    init: "EditForm_init st fm u self = Inr frm" by blast
  note S = EditForm_super_Inr [OF self]
  note I = EditForm_init_Inr [OF init S(1)]
  have lc: "lower ''CharField'' = ''charfield''" by code_simp
  have hidden: "\<exists>fld'. map_of (form_fields frm) k = Some fld' \<and>
              field_class fld' = CharField \<and>
              widget_class (widget fld') = ''HiddenInput'' \<and>
              attrs (widget fld') ''id'' = Some (k @ ''-'' @ uuid frm) \<and>
              attrs (widget fld') ''class'' = Some '' charfield'' \<and>
              attrs (widget fld') ''required'' = (if FORMS_USE_HTML5 st then Some [] else None)"
    if "k \<in> {''app'', ''model'', ''id'', ''fields''}" for k
  proof -
    from that S(3) [of k] have "map_of (form_fields self) k = Some hidden_field" by simp
    from I(2) [OF this]
    have "map_of (form_fields frm) k = Some (decorate st u k hidden_field)"
      by (simp add: override_widget_def widget_overrides_def hidden_field_def)
    then show ?thesis
      by (simp add: decorate_simps I(3) hidden_field_def new_widget_def get_default_def lc)
  qed
  have every: "\<exists>fld' c. map_of (form_fields frm) k = Some fld' \<and>
              attrs (widget fld') ''id'' = Some (k @ ''-'' @ uuid frm) \<and>
              attrs (widget fld') ''class'' = Some (c @ '' '' @ lower (class_name (field_class fld')))"
    if "k \<in> fst ` set (form_fields frm)" for k
  proof -
    from that I(1) have "k \<in> fst ` set (form_fields self)" by (metis list.set_map)
    then obtain fld where "map_of (form_fields self) k = Some fld"
      by (metis map_of_eq_None_iff not_Some_eq)
    from I(2) [OF this] obtain fld1 where
      "map_of (form_fields frm) k = Some (decorate st u k fld1)" by blast
    then show ?thesis
      by (auto simp: decorate_simps I(3))
  qed
  from hidden every I(3) show ?thesis by blast
qed

theorem EditForm_hidden_fields_processed_witness:
  "\<exists>frm. get_edit_form (ex_settings False) ex_fields_module ''u1'' ex_obj ''title,start_date''
          None None = Inr frm \<and>
     (\<exists>fld'. map_of (form_fields frm) ''app'' = Some fld' \<and>
        attrs (widget fld') ''id'' = Some ''app-u1'' \<and>
        attrs (widget fld') ''class'' = Some '' charfield'') \<and>
     (\<exists>fld'. map_of (form_fields frm) ''model'' = Some fld' \<and>
        attrs (widget fld') ''id'' = Some ''model-u1'') \<and>
     (\<exists>fld'. map_of (form_fields frm) ''id'' = Some fld' \<and>
        attrs (widget fld') ''id'' = Some ''id-u1'') \<and>
     (\<exists>fld'. map_of (form_fields frm) ''fields'' = Some fld' \<and>
        attrs (widget fld') ''id'' = Some ''fields-u1'' \<and>
        attrs (widget fld') ''required'' = None)"
proof -
  from ex_edit_form_built [of False] obtain frm where
    frm: "get_edit_form (ex_settings False) ex_fields_module ''u1'' ex_obj ''title,start_date''
          None None = Inr frm" by blast
  from EditForm_hidden_fields_processed [OF frm]
  have u: "uuid frm = ''u1''" and
    hidden: "\<forall>k\<in>{''app'', ''model'', ''id'', ''fields''}.
            \<exists>fld'. map_of (form_fields frm) k = Some fld' \<and>
              field_class fld' = CharField \<and>
              widget_class (widget fld') = ''HiddenInput'' \<and>
              attrs (widget fld') ''id'' = Some (k @ ''-'' @ uuid frm) \<and>
              attrs (widget fld') ''class'' = Some '' charfield'' \<and>
              attrs (widget fld') ''required'' =
                (if FORMS_USE_HTML5 (ex_settings False) then Some [] else None)"
    by blast+
  from hidden have
    "\<exists>fld'. map_of (form_fields frm) ''app'' = Some fld' \<and>
        attrs (widget fld') ''id'' = Some ''app-u1'' \<and>
        attrs (widget fld') ''class'' = Some '' charfield''"
    "\<exists>fld'. map_of (form_fields frm) ''model'' = Some fld' \<and>
        attrs (widget fld') ''id'' = Some ''model-u1''"
    "\<exists>fld'. map_of (form_fields frm) ''id'' = Some fld' \<and>
        attrs (widget fld') ''id'' = Some ''id-u1''"
    "\<exists>fld'. map_of (form_fields frm) ''fields'' = Some fld' \<and>
        attrs (widget fld') ''id'' = Some ''fields-u1'' \<and>
        attrs (widget fld') ''required'' = None"
    by (auto simp: u ex_settings_def)
  with frm show ?thesis by blast
qed

end
